theory Spec2Isabelle
  imports Complex_Main "HOL-Library.Word" "HOL-Library.Sublist" "HOL-Library.Log_Nat"
begin

section \<open>Shared data model (src/types.ts)\<close>

text \<open>
  The repository holds two React components: the voice widget \<open>Chatbot\<close>
  (src/unnamed/part_000) and the text widget \<open>ChatbotText\<close>
  (src/components/ChatbotText.tsx). Both keep a transcript of
  \<open>TranscriptionEntry\<close> values. A component is modelled by a record of its React
  state variables and refs; a handler is a function from that record to the updated
  record. Conventions of the embedding:
  \<^item> events are handled one at a time. A state setter given a value takes effect at
    the point of the call. An updater function given to \<open>setTranscription\<close> is
    queued and run by React when it next renders, which is taken to be after the
    handler has finished and before the next event; it reads a ref when it runs;
  \<^item> a handler reads state variables as the render that created it captured them.
    Where the handler of an earlier render can still be called
    (\<open>handleDataSubmission\<close>), that render is an argument of the handler;
    elsewhere the handler is that of the latest render and reads the current state;
  \<^item> a handler that awaits is either split at the await into the part before and the
    continuation, or takes the outcome of the awaited call as an argument;
  \<^item> calls that leave the component (audio nodes, the remote model, the relay) are
    appended to the \<open>effects\<close> log in call order;
  \<^item> strings are lists of 8-bit code units; playback times are the rationals that
    double-precision numbers denote, added with rounding; audio samples are exact
    reals.
\<close>

datatype ChatStatus = IDLE | CONNECTING | LISTENING | PROCESSING | SPEAKING | ERROR

datatype Speaker = user | bot

record TranscriptionEntry =
  speaker :: Speaker
  etext :: string
  isFinal :: bool

datatype ChatRole = role_user | role_model

record ContentTurn =
  role :: ChatRole
  parts :: "string list"

datatype effect =
    SourceStart nat rat
  | SourceStop nat
  | TrackStop
  | ProcessorDisconnect
  | InputContextClose
  | OutputContextClose
  | SessionClose
  | ExtractionRequest string
  | RelayPost string
  | ChatRequest "ContentTurn list"

text \<open>A thrown JavaScript value; \<open>message\<close> is what \<open>e?.message\<close> reads.\<close>

datatype exn = Exn (message: "string option")

text \<open>The state both components declare under the same names.\<close>

record Widget =
  isOpen :: bool
  transcription :: "TranscriptionEntry list"
  error :: "string option"
  showFeedback :: bool
  feedbackSubmitted :: bool
  isSubmitting :: bool
  isSubmittingRef :: bool
  effects :: "effect list"

section \<open>The voice widget (src/unnamed/part_000)\<close>

datatype ContextState = suspended | running | closed

text \<open>
  An inbound \<open>LiveServerMessage\<close>, reduced to the fields \<open>onmessage\<close> reads.
  \<open>Transcription.text\<close> is optional in the SDK's type. \<open>modelTurn\<close> is the list of
  parts when the turn has one (\<open>None\<close> inside: \<open>parts\<close> undefined), each part
  giving \<open>inlineData?.data\<close>.
\<close>

datatype Transcription = Transcription (ttext: "string option")

record LiveServerMessage =
  inputTranscription :: "Transcription option"
  outputTranscription :: "Transcription option"
  turnComplete :: bool
  modelTurn :: "string option list option option"
  interrupted :: bool

record PlaybackQueueEntry =
  source :: nat
  startTime :: rat
  duration :: rat

record Chatbot = Widget +
  status :: ChatStatus
  sessionPromiseRef :: bool
  inputAudioContextRef :: "ContextState option"
  outputAudioContextRef :: "ContextState option"
  microphoneStreamRef :: bool
  scriptProcessorRef :: bool
  nextAudioStartTimeRef :: rat
  audioSourcesRef :: "nat list"
  currentInputTranscriptionRef :: string
  currentOutputTranscriptionRef :: string
  created :: nat
  scheduled :: "PlaybackQueueEntry list"

text \<open>
  \<open>audioSourcesRef\<close> is the JavaScript \<open>Set\<close> of source nodes, in insertion
  order; a node is the number \<open>createBufferSource\<close> gave it (\<open>created\<close> counts the
  nodes made so far). \<open>scheduled\<close> records every \<open>source.start(startTime)\<close> with
  the duration of the buffer it plays. The boolean refs are \<open>True\<close> when the ref
  holds an object and \<open>False\<close> when it is null.
\<close>

definition do_effect :: "effect \<Rightarrow> ('a::type) Widget_scheme \<Rightarrow> 'a Widget_scheme" where
  "do_effect e s = s\<lparr>effects := effects s @ [e]\<rparr>"

definition set_add :: "nat \<Rightarrow> nat list \<Rightarrow> nat list" where
  "set_add x xs = (if x \<in> set xs then xs else xs @ [x])"

definition set_delete :: "nat \<Rightarrow> nat list \<Rightarrow> nat list" where
  "set_delete x xs = filter (\<lambda>y. y \<noteq> x) xs"

subsection \<open>Playback times: double-precision addition\<close>

text \<open>
  \<open>audioCtx.currentTime\<close>, \<open>audioBuffer.duration\<close> and
  \<open>nextAudioStartTimeRef.current\<close> are JavaScript numbers, that is IEEE 754
  doubles; a finite double is the rational it denotes. \<open>a + b\<close> is the exact sum
  rounded to the nearest number with a 53-bit significand, ties going to the even
  significand. \<open>exponent x\<close> is the \<open>e\<close> with \<open>2^e \<le> x < 2^(e+1)\<close> for
  positive \<open>x\<close>, so \<open>2^(e-52)\<close> is the spacing of the doubles around \<open>x\<close>.
  The exponent range is not bounded here: the sum of two doubles below the smallest
  normal number is a double itself and is not rounded by either rule, and sums of
  \<open>2^1024\<close> and more, which JavaScript turns into \<open>Infinity\<close>, lie outside the
  model, as playback times in seconds do. A number is \<open>representable\<close> when
  rounding leaves it as it is, as every double is.
\<close>

definition exponent :: "rat \<Rightarrow> int" where
  "exponent x =
     (if 1 \<le> x then int (floorlog 2 (nat \<lfloor>x\<rfloor>)) - 1
      else - int (floorlog 2 (nat (\<lceil>1 / x\<rceil> - 1))))"

definition roundToEven :: "rat \<Rightarrow> int" where
  "roundToEven q =
     (let f = \<lfloor>q\<rfloor>; r = q - of_int f
      in if r < 1 / 2 then f else if 1 / 2 < r then f + 1 else if even f then f else f + 1)"

definition round53 :: "rat \<Rightarrow> rat" where
  "round53 x =
     (if x = 0 then 0
      else let u = 2 powi (exponent \<bar>x\<bar> - 52)
           in sgn x * of_int (roundToEven (\<bar>x\<bar> / u)) * u)"

definition double_add :: "rat \<Rightarrow> rat \<Rightarrow> rat" where
  "double_add a b = round53 (a + b)"

definition representable :: "rat \<Rightarrow> bool" where
  "representable x = (round53 x = x)"

subsection \<open>Transcript updates of \<open>onmessage\<close> (lines 245-273)\<close>

text \<open>String concatenation \<open>+=\<close> with a value that may be undefined.\<close>

definition js_string :: "string option \<Rightarrow> string" where
  "js_string v = (case v of None \<Rightarrow> ''undefined'' | Some t \<Rightarrow> t)"

text \<open>
  The updater of lines 248-254 and 260-266, run on the transcript \<open>prev\<close> with
  \<open>acc\<close> the content of the accumulator ref at that moment: when the last entry of
  the transcript belongs to the speaker and is not final it is replaced by a copy
  holding \<open>acc\<close>; otherwise a new entry is appended.
\<close>

definition amend_or_append :: "Speaker \<Rightarrow> string \<Rightarrow> TranscriptionEntry list \<Rightarrow> TranscriptionEntry list" where
  "amend_or_append sp acc prev =
     (if prev \<noteq> [] \<and> speaker (last prev) = sp \<and> \<not> isFinal (last prev)
      then butlast prev @ [(last prev)\<lparr>etext := acc\<rparr>]
      else prev @ [\<lparr>speaker = sp, etext = acc, isFinal = False\<rparr>])"

text \<open>
  The three updater functions the handler gives to \<open>setTranscription\<close> (lines 248,
  260 and 270). The handler only queues them; \<open>runUpdater s u\<close> is what \<open>u\<close> does
  when React runs it in state \<open>s\<close>, reading the accumulator ref as it is then.
\<close>

datatype updater = AmendUser | AmendBot | MarkAllFinal

definition runUpdater :: "Chatbot \<Rightarrow> updater \<Rightarrow> TranscriptionEntry list \<Rightarrow> TranscriptionEntry list" where
  "runUpdater s u prev =
     (case u of
        AmendUser \<Rightarrow> amend_or_append user (currentInputTranscriptionRef s) prev
      | AmendBot \<Rightarrow> amend_or_append bot (currentOutputTranscriptionRef s) prev
      | MarkAllFinal \<Rightarrow> map (\<lambda>entry. entry\<lparr>isFinal := True\<rparr>) prev)"

text \<open>React's render: the queued updaters run in the order they were queued.\<close>

definition render :: "Chatbot \<Rightarrow> updater list \<Rightarrow> Chatbot" where
  "render s q = s\<lparr>transcription := foldl (\<lambda>prev u. runUpdater s u prev) (transcription s) q\<rparr>"

text \<open>
  The three branches act on the state paired with the updaters queued so far: each
  changes the refs at once and adds its updater to the queue.
\<close>

definition onInputTranscription :: "Transcription \<Rightarrow> Chatbot \<times> updater list \<Rightarrow> Chatbot \<times> updater list" where
  "onInputTranscription t h =
     (case h of (s, q) \<Rightarrow>
        (s\<lparr>currentInputTranscriptionRef := currentInputTranscriptionRef s @ js_string (ttext t)\<rparr>,
         q @ [AmendUser]))"

definition onOutputTranscription :: "Transcription \<Rightarrow> Chatbot \<times> updater list \<Rightarrow> Chatbot \<times> updater list" where
  "onOutputTranscription t h =
     (case h of (s, q) \<Rightarrow>
        (s\<lparr>currentOutputTranscriptionRef := currentOutputTranscriptionRef s @ js_string (ttext t)\<rparr>,
         q @ [AmendBot]))"

definition onTurnComplete :: "Chatbot \<times> updater list \<Rightarrow> Chatbot \<times> updater list" where
  "onTurnComplete h =
     (case h of (s, q) \<Rightarrow>
        (s\<lparr>currentInputTranscriptionRef := [], currentOutputTranscriptionRef := []\<rparr>,
         q @ [MarkAllFinal]))"

subsection \<open>Audio scheduling and interruption of \<open>onmessage\<close> (lines 275-297)\<close>

text \<open>
  \<open>message.serverContent?.modelTurn?.parts[0]?.inlineData?.data\<close>: indexing
  \<open>parts\<close> when the turn has none raises a TypeError.
\<close>

definition base64Audio :: "LiveServerMessage \<Rightarrow> exn + string option" where
  "base64Audio m =
     (case modelTurn m of
        None \<Rightarrow> Inr None
      | Some None \<Rightarrow> Inl (Exn (Some ''TypeError''))
      | Some (Some []) \<Rightarrow> Inr None
      | Some (Some (p # _)) \<Rightarrow> Inr p)"

text \<open>JavaScript truthiness of an optional string: defined and not empty.\<close>

definition truthy :: "string option \<Rightarrow> bool" where
  "truthy v = (case v of None \<Rightarrow> False | Some t \<Rightarrow> t \<noteq> [])"

text \<open>
  Lines 280-290, after the buffer has been decoded: \<open>now\<close> is
  \<open>audioCtx.currentTime\<close> and \<open>d\<close> is \<open>audioBuffer.duration\<close>. The clock
  is set to the sum as JavaScript computes it.
\<close>

definition scheduleAudio :: "rat \<Rightarrow> rat \<Rightarrow> Chatbot \<Rightarrow> Chatbot" where
  "scheduleAudio now d s =
     (let src = created s;
          start = max now (nextAudioStartTimeRef s)
      in s\<lparr>created := Suc src,
            effects := effects s @ [SourceStart src start],
            scheduled := scheduled s @ [\<lparr>source = src, startTime = start, duration = d\<rparr>],
            nextAudioStartTimeRef := double_add start d,
            audioSourcesRef := set_add src (audioSourcesRef s)\<rparr>)"

text \<open>
  The audio branch. \<open>decodeAudioData(decode(base64Audio), ...)\<close> lives in
  services/audioUtils, which is not among the sources: its outcome is the parameter
  \<open>dec\<close>, giving the duration of the decoded buffer or the value it throws. The
  result pairs the state with the exception that ended the handler, if any.
\<close>

definition onAudio :: "(string \<Rightarrow> exn + rat) \<Rightarrow> rat \<Rightarrow> LiveServerMessage \<Rightarrow> Chatbot \<Rightarrow> Chatbot \<times> exn option" where
  "onAudio dec now m s =
     (case base64Audio m of
        Inl e \<Rightarrow> (s, Some e)
      | Inr a \<Rightarrow>
          if truthy a \<and> outputAudioContextRef s \<noteq> None then
            (case dec (the a) of
               Inl e \<Rightarrow> (s\<lparr>status := SPEAKING\<rparr>, Some e)
             | Inr d \<Rightarrow> (scheduleAudio now d (s\<lparr>status := SPEAKING\<rparr>), None))
          else (s, None))"

definition onInterrupted :: "Chatbot \<Rightarrow> Chatbot" where
  "onInterrupted s =
     s\<lparr>effects := effects s @ map SourceStop (audioSourcesRef s),
       audioSourcesRef := [],
       nextAudioStartTimeRef := 0\<rparr>"

text \<open>The \<open>onended\<close> callback of a source (lines 287-290).\<close>

definition onended :: "nat \<Rightarrow> Chatbot \<Rightarrow> Chatbot" where
  "onended src s =
     (let s' = s\<lparr>audioSourcesRef := set_delete src (audioSourcesRef s)\<rparr>
      in if audioSourcesRef s' = [] then s'\<lparr>status := LISTENING\<rparr> else s')"

text \<open>
  The whole handler (lines 244-298), one message handled to its end: the await of the
  decoding is taken to complete before the next message is handled. The updaters the
  handler queued run when it has finished, whether it returned or threw.
\<close>

definition transcriptUpdates :: "LiveServerMessage \<Rightarrow> Chatbot \<Rightarrow> Chatbot \<times> updater list" where
  "transcriptUpdates m s =
     (let h1 = (case inputTranscription m of None \<Rightarrow> (s, []) | Some t \<Rightarrow> onInputTranscription t (s, []));
          h2 = (case outputTranscription m of None \<Rightarrow> h1 | Some t \<Rightarrow> onOutputTranscription t h1)
      in if turnComplete m then onTurnComplete h2 else h2)"

definition onmessage :: "(string \<Rightarrow> exn + rat) \<Rightarrow> rat \<Rightarrow> LiveServerMessage \<Rightarrow> Chatbot \<Rightarrow> Chatbot \<times> exn option" where
  "onmessage dec now m s =
     (case transcriptUpdates m s of (s3, q) \<Rightarrow>
        (case onAudio dec now m s3 of
           (s4, Some e) \<Rightarrow> (render s4 q, Some e)
         | (s4, None) \<Rightarrow> (render (if interrupted m then onInterrupted s4 else s4) q, None)))"

text \<open>
  Messages handled in delivery order, each with the playback time read while it is
  handled. An exception ends one handler only: the session goes on with the state the
  handler left.
\<close>

fun run_messages :: "(string \<Rightarrow> exn + rat) \<Rightarrow> (rat \<times> LiveServerMessage) list \<Rightarrow> Chatbot \<Rightarrow> Chatbot" where
  "run_messages dec [] s = s"
| "run_messages dec ((now, m) # ms) s = run_messages dec ms (fst (onmessage dec now m s))"

subsection \<open>Teardown (lines 69-123, 299-305)\<close>

definition stopAudioPlayback :: "Chatbot \<Rightarrow> Chatbot" where
  "stopAudioPlayback s =
     (if outputAudioContextRef s \<noteq> None
      then s\<lparr>effects := effects s @ map SourceStop (audioSourcesRef s),
             audioSourcesRef := [],
             nextAudioStartTimeRef := 0\<rparr>
      else s)"

definition cleanup :: "Chatbot \<Rightarrow> Chatbot" where
  "cleanup s0 =
     (let s1 = stopAudioPlayback s0;
          s2 = (if microphoneStreamRef s1
                then (do_effect TrackStop s1)\<lparr>microphoneStreamRef := False\<rparr> else s1);
          s3 = (if scriptProcessorRef s2
                then (do_effect ProcessorDisconnect s2)\<lparr>scriptProcessorRef := False\<rparr> else s2);
          s4 = (if inputAudioContextRef s3 \<noteq> None \<and> inputAudioContextRef s3 \<noteq> Some closed
                then do_effect InputContextClose s3 else s3);
          s5 = (if outputAudioContextRef s4 \<noteq> None \<and> outputAudioContextRef s4 \<noteq> Some closed
                then do_effect OutputContextClose s4 else s4);
          s6 = s5\<lparr>inputAudioContextRef := None, outputAudioContextRef := None\<rparr>;
          s7 = (if sessionPromiseRef s6
                then (do_effect SessionClose s6)\<lparr>sessionPromiseRef := False\<rparr> else s6)
      in s7\<lparr>isSubmittingRef := False\<rparr>)"

definition resetChat :: "Chatbot \<Rightarrow> Chatbot" where
  "resetChat s =
     cleanup (s\<lparr>transcription := [], error := None, showFeedback := False,
                feedbackSubmitted := False, isSubmitting := False,
                isSubmittingRef := False, status := IDLE\<rparr>)"

definition stopSession :: "Chatbot \<Rightarrow> Chatbot" where
  "stopSession s = cleanup (s\<lparr>status := IDLE\<rparr>)"

definition handleClose :: "Chatbot \<Rightarrow> Chatbot" where
  "handleClose s = resetChat (s\<lparr>isOpen := False\<rparr>)"

definition onerror :: "Chatbot \<Rightarrow> Chatbot" where
  "onerror s =
     cleanup (s\<lparr>error := Some ''We encountered a problem connecting. Please check your API key.'',
                status := ERROR\<rparr>)"

definition onclose :: "Chatbot \<Rightarrow> Chatbot" where
  "onclose s = cleanup s"

subsection \<open>Reading the transcript buffer\<close>

text \<open>The last entry of a speaker in the transcript, if the speaker has one.\<close>

definition lastEntryOf :: "Speaker \<Rightarrow> TranscriptionEntry list \<Rightarrow> TranscriptionEntry option" where
  "lastEntryOf sp es =
     (let own = filter (\<lambda>e. speaker e = sp) es
      in if own = [] then None else Some (last own))"


definition update_for :: "Speaker \<Rightarrow> LiveServerMessage \<Rightarrow> Transcription option" where
  "update_for sp m = (case sp of user \<Rightarrow> inputTranscription m | bot \<Rightarrow> outputTranscription m)"


definition delta :: "Speaker \<Rightarrow> LiveServerMessage \<Rightarrow> string" where
  "delta sp m = (case update_for sp m of None \<Rightarrow> [] | Some t \<Rightarrow> js_string (ttext t))"




subsection \<open>Reading the playback schedule\<close>

text \<open>
  The duration of the audio fragment a message carries: \<open>None\<close> when the message
  has no payload, an empty one, or one that does not decode. \<open>playable\<close> adds that
  the duration is not negative, as the duration of an audio buffer is.
  \<open>carriesNoAudio\<close> holds of a message whose payload is absent or empty.
  \<open>newlyScheduled s s'\<close> are the entries scheduled on the way from \<open>s\<close> to
  \<open>s'\<close>. \<open>endTime\<close> is the exact end of an entry, \<open>computedEnd\<close> the end
  as line 285 computes it, which is what the clock holds after the entry is
  scheduled.
\<close>

definition fragment :: "(string \<Rightarrow> exn + rat) \<Rightarrow> LiveServerMessage \<Rightarrow> rat option" where
  "fragment dec m =
     (case base64Audio m of
        Inl e \<Rightarrow> None
      | Inr a \<Rightarrow> if truthy a then (case dec (the a) of Inl e \<Rightarrow> None | Inr d \<Rightarrow> Some d) else None)"



definition newlyScheduled :: "Chatbot \<Rightarrow> Chatbot \<Rightarrow> PlaybackQueueEntry list" where
  "newlyScheduled s s' = drop (length (scheduled s)) (scheduled s')"


definition carriesNoAudio :: "LiveServerMessage \<Rightarrow> bool" where
  "carriesNoAudio m = (case base64Audio m of Inl e \<Rightarrow> False | Inr a \<Rightarrow> \<not> truthy a)"

subsection \<open>Outbound audio: \<open>onaudioprocess\<close> (lines 230-240)\<close>

text \<open>
  A sample of the captured block is a 32-bit float read as a JavaScript number: a
  finite value, which is an exact (dyadic) real, or NaN or an infinity. Multiplying a
  finite float by 32768 is exact in double precision, so the product is the real
  product. Storing a number into an \<open>Int16Array\<close> applies ToInt16: NaN and the
  infinities become 0, any other value is truncated towards zero and reduced modulo
  \<open>2^16\<close> into the signed range, which is what \<open>word_of_int\<close> does for a 16-bit
  word read by \<open>sint\<close>. \<open>onaudioprocess\<close> is the \<open>Int16Array\<close> built from the
  block; its base64 encoding (services/audioUtils) and the send are not modelled.
\<close>

datatype js_number = Finite real | NaN | PosInfinity | NegInfinity

definition js_times :: "js_number \<Rightarrow> real \<Rightarrow> js_number" where
  "js_times x k = (case x of Finite r \<Rightarrow> Finite (r * k) | other \<Rightarrow> other)"

definition js_truncate :: "real \<Rightarrow> int" where
  "js_truncate r = (if r < 0 then \<lceil>r\<rceil> else \<lfloor>r\<rfloor>)"

definition ToInt16 :: "js_number \<Rightarrow> 16 word" where
  "ToInt16 x = (case x of Finite r \<Rightarrow> word_of_int (js_truncate r) | other \<Rightarrow> 0)"

definition onaudioprocess :: "js_number list \<Rightarrow> 16 word list" where
  "onaudioprocess inputData = map (\<lambda>x. ToInt16 (js_times x 32768)) inputData"

section \<open>JavaScript strings\<close>

text \<open>
  The white space \<open>String.prototype.trim\<close> strips, among code units below 256: tab,
  line feed, vertical tab, form feed, carriage return, space and no-break space.
\<close>

definition isWhiteSpace :: "char \<Rightarrow> bool" where
  "isWhiteSpace c = (c \<in> set [CHR 0x09, CHR 0x0A, CHR 0x0B, CHR 0x0C, CHR 0x0D, CHR 0x20, CHR 0xA0])"

definition js_trim :: "string \<Rightarrow> string" where
  "js_trim t = rev (dropWhile isWhiteSpace (rev (dropWhile isWhiteSpace t)))"

text \<open>
  \<open>toLowerCase\<close> on code units below 256: the letters A-Z and the Latin-1 capitals
  (all of 0xC0-0xDE but the multiplication sign) move up by 32.
\<close>

definition toLowerCaseChar :: "char \<Rightarrow> char" where
  "toLowerCaseChar c =
     (let n = of_char c :: nat
      in if (65 \<le> n \<and> n \<le> 90) \<or> (192 \<le> n \<and> n \<le> 222 \<and> n \<noteq> 215)
         then char_of (n + 32) else c)"

definition js_toLowerCase :: "string \<Rightarrow> string" where
  "js_toLowerCase t = map toLowerCaseChar t"

fun js_includes :: "string \<Rightarrow> string \<Rightarrow> bool" where
  "js_includes [] p = (p = [])"
| "js_includes (c # t) p = (prefix p (c # t) \<or> js_includes t p)"

text \<open>
  A regular expression \<open>/^(a|b|...)$/i\<close> over ASCII alternatives: with the \<open>i\<close>
  flag two code units match when they are equal or are the two cases of one ASCII
  letter (a code unit of 128 or more never matches an ASCII one).
\<close>

definition canonicalize :: "char \<Rightarrow> char" where
  "canonicalize c =
     (let n = of_char c :: nat in if 97 \<le> n \<and> n \<le> 122 then char_of (n - 32) else c)"

definition testAlternatives :: "string list \<Rightarrow> string \<Rightarrow> bool" where
  "testAlternatives alts t = (map canonicalize t \<in> set (map (map canonicalize) alts))"

fun js_join :: "string \<Rightarrow> string list \<Rightarrow> string" where
  "js_join sep [] = []"
| "js_join sep [x] = x"
| "js_join sep (x # y # xs) = x @ sep @ js_join sep (y # xs)"

text \<open>\<open>a || b\<close> on an optional string: \<open>a\<close> when it is defined and not empty.\<close>

definition orElse :: "string option \<Rightarrow> string \<Rightarrow> string" where
  "orElse a b = (case a of None \<Rightarrow> b | Some t \<Rightarrow> if t = [] then b else t)"

definition digit :: "nat \<Rightarrow> char" where
  "digit n = char_of (48 + n)"

fun decimal :: "nat \<Rightarrow> string" where
  "decimal n = (if n < 10 then [digit n] else decimal (n div 10) @ [digit (n mod 10)])"

declare decimal.simps [simp del]

section \<open>What both widgets render and submit\<close>

definition speakerName :: "Speaker \<Rightarrow> string" where
  "speakerName sp = (case sp of user \<Rightarrow> ''user'' | bot \<Rightarrow> ''bot'')"

text \<open>\<open>transcription.map(t => `${t.speaker}: ${t.text}`).join('\n')\<close>\<close>

definition transcriptText :: "TranscriptionEntry list \<Rightarrow> string" where
  "transcriptText ts = js_join [CHR 0x0A] (map (\<lambda>t. speakerName (speaker t) @ '': '' @ etext t) ts)"

definition botSaidThankYou :: "TranscriptionEntry list \<Rightarrow> bool" where
  "botSaidThankYou ts =
     list_ex (\<lambda>e. speaker e = bot \<and> js_includes (etext e) ''Thank you for using the JHN Finance AI Agent!'') ts"

definition showSubmitButton :: "('a::type) Widget_scheme \<Rightarrow> bool" where
  "showSubmitButton s =
     (length (transcription s) \<ge> 2 \<and> botSaidThankYou (transcription s) \<and>
      \<not> showFeedback s \<and> \<not> isSubmitting s)"

section \<open>The text widget (src/components/ChatbotText.tsx)\<close>

record ChatbotText = Widget +
  inputValue :: string
  isLoading :: bool
  chatHistoryRef :: "ContentTurn list"
  introShownRef :: bool

definition intro :: string where
  "intro = ''Hi! You're here so let's get started right away without the paperwork! What are you looking for today? Life insurance, health insurance, or annuities?''"

definition closingMessage :: string where
  "closingMessage = ''Perfect! A JHN Finance representative will review your information and get in touch with you shortly with your personalized quote. Thank you for using the JHN Finance AI Agent!''"

text \<open>The effect that shows the introduction when the chat opens (lines 61-71).\<close>

definition introEffect :: "ChatbotText \<Rightarrow> ChatbotText" where
  "introEffect s =
     (let s1 = (if isOpen s \<and> transcription s = [] \<and> \<not> introShownRef s
                then s\<lparr>introShownRef := True,
                       transcription := [\<lparr>speaker = bot, etext = intro, isFinal = True\<rparr>],
                       chatHistoryRef := chatHistoryRef s @ [\<lparr>role = role_model, parts = [intro]\<rparr>]\<rparr>
                else s)
      in if \<not> isOpen s1 then s1\<lparr>introShownRef := False\<rparr> else s1)"

definition text_resetChat :: "ChatbotText \<Rightarrow> ChatbotText" where
  "text_resetChat s =
     s\<lparr>transcription := [], error := None, showFeedback := False, feedbackSubmitted := False,
       isSubmitting := False, isSubmittingRef := False, inputValue := [], chatHistoryRef := []\<rparr>"

definition text_handleClose :: "ChatbotText \<Rightarrow> ChatbotText" where
  "text_handleClose s = text_resetChat (s\<lparr>isOpen := False\<rparr>)"

subsection \<open>\<open>sendMessage\<close> (lines 147-207)\<close>

definition lastBotMessage :: "TranscriptionEntry list \<Rightarrow> string" where
  "lastBotMessage ts =
     (let bots = filter (\<lambda>e. speaker e = bot) ts in if bots = [] then [] else etext (last bots))"

definition isConfirmationAnswer :: "string \<Rightarrow> bool" where
  "isConfirmationAnswer t =
     (testAlternatives [''yes'', ''correct'', ''that's right'', ''yep'', ''yeah'', ''sounds good'']
        (js_trim t) \<or>
      js_includes (js_toLowerCase t) ''yes'' \<or>
      js_includes (js_toLowerCase t) ''correct'')"

text \<open>
  \<open>sendMessage\<close> up to its await: \<open>apiKey\<close> is what \<open>getApiKey()\<close> returns. The
  request to the model is logged as \<open>ChatRequest\<close> with the history it is given.
\<close>

definition sendMessage :: "string \<Rightarrow> ChatbotText \<Rightarrow> ChatbotText" where
  "sendMessage apiKey s =
     (let t = js_trim (inputValue s)
      in if t = [] \<or> isLoading s then s
         else
           let s1 = s\<lparr>inputValue := [], error := None\<rparr>;
               userEntry = \<lparr>speaker = user, etext = t, isFinal = True\<rparr>
           in if js_includes (lastBotMessage (transcription s)) ''Is that correct?'' \<and>
                   isConfirmationAnswer t
              then s1\<lparr>transcription := transcription s1 @ [userEntry] @
                         [\<lparr>speaker = bot, etext = closingMessage, isFinal = True\<rparr>],
                       chatHistoryRef := chatHistoryRef s1 @ [\<lparr>role = role_user, parts = [t]\<rparr>] @
                         [\<lparr>role = role_model, parts = [closingMessage]\<rparr>]\<rparr>
              else
                let s2 = s1\<lparr>transcription := transcription s1 @ [userEntry],
                            chatHistoryRef := chatHistoryRef s1 @ [\<lparr>role = role_user, parts = [t]\<rparr>],
                            isLoading := True\<rparr>
                in if apiKey = []
                   then s2\<lparr>error := Some ''Connection setup is incomplete. Please ensure GEMINI_API_KEY is set.'',
                            isLoading := False\<rparr>
                   else do_effect (ChatRequest (chatHistoryRef s2)) s2)"

text \<open>
  The continuation of \<open>sendMessage\<close> when the request settles: resolved with a
  response whose \<open>text\<close> may be undefined, or rejected.
\<close>

definition sendMessage_settled :: "exn + string option \<Rightarrow> ChatbotText \<Rightarrow> ChatbotText" where
  "sendMessage_settled r s =
     (case r of
        Inr t \<Rightarrow>
          (let botText = (case t of None \<Rightarrow> ''I apologize, I could not generate a response.''
                          | Some x \<Rightarrow> js_trim x)
           in s\<lparr>transcription := transcription s @ [\<lparr>speaker = bot, etext = botText, isFinal = True\<rparr>],
                 chatHistoryRef := chatHistoryRef s @ [\<lparr>role = role_model, parts = [botText]\<rparr>],
                 isLoading := False\<rparr>)
      | Inl e \<Rightarrow>
          s\<lparr>error := Some (orElse (message e) ''Connection failed. Please check your API key.''),
            isLoading := False\<rparr>)"

section \<open>Quote submission (\<open>handleDataSubmission\<close> of both widgets)\<close>

text \<open>
  \<open>handleDataSubmission\<close> awaits twice: the extraction request to the model and the
  POST to the relay (with the reading of its JSON body). It is modelled in three parts:
  the call up to the first await, the continuation when the extraction settles, and
  the continuation when the relay settles; \<open>catch\<close> and \<open>finally\<close> make the fourth
  function, which the continuations end in. \<open>ExtractionRequest t\<close> logs
  \<open>generateContent\<close> with the extraction prompt around the transcript text \<open>t\<close>,
  \<open>RelayPost b\<close> logs the \<open>fetch\<close> of \<open>/api/submit-quote\<close> with body \<open>b\<close>.
  The parameter \<open>json\<close> stands for \<open>JSON.stringify(JSON.parse(x))\<close>: the body to
  send, or the SyntaxError that \<open>JSON.parse\<close> throws.
\<close>

record RelayResult =
  result_ok :: bool
  result_error :: "string option"

text \<open>
  The relay's response: \<open>webhookRes.ok\<close>, \<open>webhookRes.status\<close>, and the parsed
  body (\<open>None\<close> when reading it fails, which the code replaces by \<open>{}\<close>).
\<close>

record Response =
  ok :: bool
  httpStatus :: nat
  result :: "RelayResult option"

definition relayFailure :: "Response \<Rightarrow> exn option" where
  "relayFailure res =
     (let r = (case result res of None \<Rightarrow> \<lparr>result_ok = False, result_error = None\<rparr> | Some x \<Rightarrow> x)
      in if \<not> ok res \<or> \<not> result_ok r
         then Some (Exn (Some (orElse (result_error r)
                (''Webhook failed ('' @ decimal (httpStatus res) @ '').''))))
         else None)"

text \<open>The message of the error thrown for a relay response that is not ok.\<close>

definition relayMessage :: "Response \<Rightarrow> string" where
  "relayMessage res =
     orElse (case result res of None \<Rightarrow> None | Some r \<Rightarrow> result_error r)
       (''Webhook failed ('' @ decimal (httpStatus res) @ '').'')"

subsection \<open>Text widget (ChatbotText.tsx lines 89-145)\<close>

text \<open>
  The call up to the first await. \<open>captured\<close> is the state the component function
  saw when it created this handler: \<open>transcription\<close> is read from it, the guard
  \<open>isSubmittingRef.current\<close> from the ref as it is now.
\<close>

definition text_handleDataSubmission :: "ChatbotText \<Rightarrow> ChatbotText \<Rightarrow> ChatbotText" where
  "text_handleDataSubmission captured s =
     (if isSubmittingRef s then s
      else do_effect (ExtractionRequest (transcriptText (transcription captured)))
             (s\<lparr>isSubmittingRef := True, isSubmitting := True\<rparr>))"

definition text_submissionSettled :: "exn option \<Rightarrow> ChatbotText \<Rightarrow> ChatbotText" where
  "text_submissionSettled thrown s =
     (let s1 = (case thrown of
                  None \<Rightarrow> s
                | Some e \<Rightarrow> s\<lparr>error := Some (orElse (message e) ''Quote submission failed. Check console.'')\<rparr>);
          s2 = s1\<lparr>isSubmitting := False, isSubmittingRef := False\<rparr>
      in if thrown = None then s2\<lparr>showFeedback := True\<rparr> else s2)"

definition text_extractionSettled :: "(string \<Rightarrow> exn + string) \<Rightarrow> exn + string option \<Rightarrow> ChatbotText \<Rightarrow> ChatbotText" where
  "text_extractionSettled json r s =
     (case r of
        Inl e \<Rightarrow> text_submissionSettled (Some e) s
      | Inr t \<Rightarrow>
          (case json (case t of None \<Rightarrow> ''{}'' | Some x \<Rightarrow> x) of
             Inl e \<Rightarrow> text_submissionSettled (Some e) s
           | Inr body \<Rightarrow> do_effect (RelayPost body) s))"

definition text_relaySettled :: "exn + Response \<Rightarrow> ChatbotText \<Rightarrow> ChatbotText" where
  "text_relaySettled r s =
     (case r of
        Inl e \<Rightarrow> text_submissionSettled (Some e) s
      | Inr res \<Rightarrow> text_submissionSettled (relayFailure res) s)"

text \<open>The error panel of the text widget shows \<open>error\<close> whenever it is set and not empty (line 256).\<close>

definition text_shownError :: "ChatbotText \<Rightarrow> string option" where
  "text_shownError s = (case error s of None \<Rightarrow> None | Some e \<Rightarrow> if e = [] then None else Some e)"

subsection \<open>Voice widget (part_000 lines 125-180)\<close>

text \<open>
  The call up to the first await. \<open>captured\<close> is the state the component function
  saw when it created this handler: both the guard \<open>isSubmitting\<close> (line 126)
  and \<open>transcription\<close> (line 130) are the constants of that render, whatever
  \<open>setIsSubmitting\<close> has been given since.
\<close>

definition handleDataSubmission :: "Chatbot \<Rightarrow> Chatbot \<Rightarrow> Chatbot" where
  "handleDataSubmission captured s =
     (if isSubmitting captured then s
      else do_effect (ExtractionRequest (transcriptText (transcription captured)))
             (s\<lparr>isSubmitting := True, status := PROCESSING\<rparr>))"

definition submissionSettled :: "exn option \<Rightarrow> Chatbot \<Rightarrow> Chatbot" where
  "submissionSettled thrown s =
     (let s1 = (case thrown of
                  None \<Rightarrow> s
                | Some e \<Rightarrow> s\<lparr>error := Some (orElse (message e) ''Quote submission failed. Check console.''),
                              status := ERROR\<rparr>);
          s2 = s1\<lparr>isSubmitting := False\<rparr>;
          s3 = (if thrown = None then s2\<lparr>showFeedback := True\<rparr> else s2)
      in stopSession s3)"

definition extractionSettled :: "(string \<Rightarrow> exn + string) \<Rightarrow> exn + string option \<Rightarrow> Chatbot \<Rightarrow> Chatbot" where
  "extractionSettled json r s =
     (case r of
        Inl e \<Rightarrow> submissionSettled (Some e) s
      | Inr t \<Rightarrow>
          (case json (js_string t) of
             Inl e \<Rightarrow> submissionSettled (Some e) s
           | Inr body \<Rightarrow> do_effect (RelayPost body) s))"

definition relaySettled :: "exn + Response \<Rightarrow> Chatbot \<Rightarrow> Chatbot" where
  "relaySettled r s =
     (case r of
        Inl e \<Rightarrow> submissionSettled (Some e) s
      | Inr res \<Rightarrow> submissionSettled (relayFailure res) s)"

text \<open>
  The voice widget renders \<open>error\<close> only in the panel it shows while the status is
  \<open>ERROR\<close> (lines 371-376).
\<close>

definition shownError :: "Chatbot \<Rightarrow> string option" where
  "shownError s = (if status s = ERROR then error s else None)"

text \<open>The requests among the logged effects.\<close>

definition requests :: "effect list \<Rightarrow> effect list" where
  "requests es = filter (\<lambda>e. case e of ExtractionRequest t \<Rightarrow> True | RelayPost b \<Rightarrow> True
                                 | ChatRequest h \<Rightarrow> True | other \<Rightarrow> False) es"

section \<open>Example states and messages\<close>

text \<open>The voice widget as mounted, and messages that carry one field each.\<close>

definition initialChatbot :: Chatbot where
  "initialChatbot =
     \<lparr>isOpen = False, transcription = [], error = None, showFeedback = False,
      feedbackSubmitted = False, isSubmitting = False, isSubmittingRef = False,
      effects = [], status = IDLE, sessionPromiseRef = False,
      inputAudioContextRef = None, outputAudioContextRef = None,
      microphoneStreamRef = False, scriptProcessorRef = False,
      nextAudioStartTimeRef = 0, audioSourcesRef = [],
      currentInputTranscriptionRef = [], currentOutputTranscriptionRef = [],
      created = 0, scheduled = []\<rparr>"

definition emptyMessage :: LiveServerMessage where
  "emptyMessage =
     \<lparr>inputTranscription = None, outputTranscription = None, turnComplete = False,
      modelTurn = None, interrupted = False\<rparr>"

definition heard :: "string \<Rightarrow> LiveServerMessage" where
  "heard t = emptyMessage\<lparr>inputTranscription := Some (Transcription (Some t))\<rparr>"

definition said :: "string \<Rightarrow> LiveServerMessage" where
  "said t = emptyMessage\<lparr>outputTranscription := Some (Transcription (Some t))\<rparr>"

definition audio :: "string \<Rightarrow> LiveServerMessage" where
  "audio b = emptyMessage\<lparr>modelTurn := Some (Some [Some b])\<rparr>"

definition turnDone :: LiveServerMessage where
  "turnDone = emptyMessage\<lparr>turnComplete := True\<rparr>"

definition interruption :: LiveServerMessage where
  "interruption = emptyMessage\<lparr>interrupted := True\<rparr>"

text \<open>A decoder for the examples: a quarter of a second for each character.\<close>

definition quarterSeconds :: "string \<Rightarrow> exn + rat" where
  "quarterSeconds b = Inr (of_nat (length b) / 4)"


text \<open>
  A session that is listening, and the same session after two fragments of one and two
  seconds arrived at time 0.
\<close>

definition listening :: Chatbot where
  "listening = initialChatbot\<lparr>status := LISTENING, sessionPromiseRef := True,
     inputAudioContextRef := Some running, outputAudioContextRef := Some running,
     microphoneStreamRef := True, scriptProcessorRef := True\<rparr>"

definition playing :: Chatbot where
  "playing = run_messages quarterSeconds [(0, audio ''AAAA''), (0, audio ''AAAAAAAA'')] listening"

text \<open>
  The text widget as mounted, and a chat in which the bot has just asked for
  confirmation.
\<close>

definition initialChatbotText :: ChatbotText where
  "initialChatbotText =
     \<lparr>isOpen = False, transcription = [], error = None, showFeedback = False,
      feedbackSubmitted = False, isSubmitting = False, isSubmittingRef = False,
      effects = [], inputValue = [], isLoading = False, chatHistoryRef = [],
      introShownRef = False\<rparr>"

definition confirmationLine :: string where
  "confirmationLine = ''Okay, just to confirm, your name is Jane Doe and we can contact you at jane@example.com. Is that correct?''"

definition awaitingConfirmation :: ChatbotText where
  "awaitingConfirmation =
     initialChatbotText\<lparr>isOpen := True, introShownRef := True,
       transcription := [\<lparr>speaker = bot, etext = intro, isFinal = True\<rparr>,
                         \<lparr>speaker = user, etext = ''life insurance'', isFinal = True\<rparr>,
                         \<lparr>speaker = bot, etext = confirmationLine, isFinal = True\<rparr>],
       chatHistoryRef := [\<lparr>role = role_model, parts = [intro]\<rparr>,
                          \<lparr>role = role_user, parts = [''life insurance'']\<rparr>,
                          \<lparr>role = role_model, parts = [confirmationLine]\<rparr>]\<rparr>"

text \<open>
  The voice widget with the closing line in the transcript, a \<open>JSON.parse\<close> that
  accepts its input, and two responses of the relay.
\<close>

definition voiceReadyToSubmit :: Chatbot where
  "voiceReadyToSubmit =
     listening\<lparr>transcription := [\<lparr>speaker = user, etext = ''yes'', isFinal = True\<rparr>,
                                  \<lparr>speaker = bot, etext = closingMessage, isFinal = True\<rparr>]\<rparr>"

definition parsesAll :: "string \<Rightarrow> exn + string" where
  "parsesAll x = Inr x"


definition relayBadGateway :: Response where
  "relayBadGateway = \<lparr>ok = False, httpStatus = 502,
               result = Some \<lparr>result_ok = False, result_error = None\<rparr>\<rparr>"

section \<open>Properties of the transcript buffer\<close>

lemma amend_or_append_keeps_final_prefix:
  assumes "list_all isFinal fin" and "prefix fin prev"
  shows "prefix fin (amend_or_append sp acc prev)"
proof -
  from assms(2) obtain rest where prev: "prev = fin @ rest"
    by (auto simp: prefix_def)
  show ?thesis
  proof (cases "prev \<noteq> [] \<and> speaker (last prev) = sp \<and> \<not> isFinal (last prev)")
    case True
    have "rest \<noteq> []"
    proof
      assume "rest = []"
      with prev True have "fin \<noteq> []" and "\<not> isFinal (last fin)" by auto
      with assms(1) show False by (auto simp: list_all_iff)
    qed
    then have "butlast prev = fin @ butlast rest"
      by (simp add: prev butlast_append)
    with True show ?thesis
      by (simp add: amend_or_append_def)
  next
    case False
    then show ?thesis
      by (auto simp: amend_or_append_def prev)
  qed
qed

lemma finalize_keeps_final_prefix:
  assumes "list_all isFinal fin" and "prefix fin prev"
  shows "prefix fin (map (\<lambda>entry. entry\<lparr>isFinal := True\<rparr>) prev)"
proof -
  from assms(2) obtain rest where prev: "prev = fin @ rest"
    by (auto simp: prefix_def)
  have "map (\<lambda>entry. entry\<lparr>isFinal := True\<rparr>) fin = fin"
    using assms(1) by (induction fin) auto
  then show ?thesis
    by (simp add: prev)
qed

text \<open>
  What the handler leaves behind before anything is rendered: the accumulators, and
  the updaters it queued.
\<close>

lemma transcriptUpdates_eq:
  "transcriptUpdates m s =
     (s\<lparr>currentInputTranscriptionRef :=
          (if turnComplete m then [] else currentInputTranscriptionRef s @ delta user m),
        currentOutputTranscriptionRef :=
          (if turnComplete m then [] else currentOutputTranscriptionRef s @ delta bot m)\<rparr>,
      (if inputTranscription m \<noteq> None then [AmendUser] else []) @
      (if outputTranscription m \<noteq> None then [AmendBot] else []) @
      (if turnComplete m then [MarkAllFinal] else []))"
  by (simp add: transcriptUpdates_def onInputTranscription_def onOutputTranscription_def
      onTurnComplete_def delta_def update_for_def Let_def split: option.splits)

lemma frame_transcriptUpdates [simp]:
  "transcription (fst (transcriptUpdates m s)) = transcription s"
  "scheduled (fst (transcriptUpdates m s)) = scheduled s"
  "nextAudioStartTimeRef (fst (transcriptUpdates m s)) = nextAudioStartTimeRef s"
  "outputAudioContextRef (fst (transcriptUpdates m s)) = outputAudioContextRef s"
  "audioSourcesRef (fst (transcriptUpdates m s)) = audioSourcesRef s"
  "created (fst (transcriptUpdates m s)) = created s"
  "effects (fst (transcriptUpdates m s)) = effects s"
  "status (fst (transcriptUpdates m s)) = status s"
  by (simp_all add: transcriptUpdates_eq)

lemma accumulators_transcriptUpdates:
  "currentInputTranscriptionRef (fst (transcriptUpdates m s)) =
     (if turnComplete m then [] else currentInputTranscriptionRef s @ delta user m)"
  "currentOutputTranscriptionRef (fst (transcriptUpdates m s)) =
     (if turnComplete m then [] else currentOutputTranscriptionRef s @ delta bot m)"
  by (simp_all add: transcriptUpdates_eq)

lemma frame_render [simp]:
  "scheduled (render s q) = scheduled s"
  "nextAudioStartTimeRef (render s q) = nextAudioStartTimeRef s"
  "outputAudioContextRef (render s q) = outputAudioContextRef s"
  "audioSourcesRef (render s q) = audioSourcesRef s"
  "created (render s q) = created s"
  "effects (render s q) = effects s"
  "status (render s q) = status s"
  "currentInputTranscriptionRef (render s q) = currentInputTranscriptionRef s"
  "currentOutputTranscriptionRef (render s q) = currentOutputTranscriptionRef s"
  by (simp_all add: render_def)

lemma transcription_render:
  "transcription (render s q) = foldl (\<lambda>prev u. runUpdater s u prev) (transcription s) q"
  by (simp add: render_def)

lemma runUpdater_reads_accumulators:
  assumes "currentInputTranscriptionRef s' = currentInputTranscriptionRef s"
    and "currentOutputTranscriptionRef s' = currentOutputTranscriptionRef s"
  shows "runUpdater s' = runUpdater s"
  using assms by (auto simp: runUpdater_def fun_eq_iff split: updater.splits)

lemma frame_onAudio [simp]:
  "transcription (fst (onAudio dec now m s)) = transcription s"
  "currentInputTranscriptionRef (fst (onAudio dec now m s)) = currentInputTranscriptionRef s"
  "currentOutputTranscriptionRef (fst (onAudio dec now m s)) = currentOutputTranscriptionRef s"
  by (simp_all add: onAudio_def scheduleAudio_def Let_def split: sum.splits)

lemma frame_onInterrupted [simp]:
  "transcription (onInterrupted s) = transcription s"
  "currentInputTranscriptionRef (onInterrupted s) = currentInputTranscriptionRef s"
  "currentOutputTranscriptionRef (onInterrupted s) = currentOutputTranscriptionRef s"
  by (simp_all add: onInterrupted_def)

lemma fst_onmessage:
  "fst (onmessage dec now m s) =
     render (let r = onAudio dec now m (fst (transcriptUpdates m s))
             in if snd r = None \<and> interrupted m then onInterrupted (fst r) else fst r)
       (snd (transcriptUpdates m s))"
  by (cases "transcriptUpdates m s"; cases "onAudio dec now m (fst (transcriptUpdates m s))")
     (auto simp: onmessage_def split: option.splits)

lemma snd_onmessage [simp]:
  "snd (onmessage dec now m s) = snd (onAudio dec now m (fst (transcriptUpdates m s)))"
  by (cases "transcriptUpdates m s"; cases "onAudio dec now m (fst (transcriptUpdates m s))")
     (auto simp: onmessage_def split: option.splits)

lemma accumulators_onmessage:
  "currentInputTranscriptionRef (fst (onmessage dec now m s)) =
     (if turnComplete m then [] else currentInputTranscriptionRef s @ delta user m)"
  "currentOutputTranscriptionRef (fst (onmessage dec now m s)) =
     (if turnComplete m then [] else currentOutputTranscriptionRef s @ delta bot m)"
  by (simp_all add: fst_onmessage Let_def accumulators_transcriptUpdates)

text \<open>
  The transcript after a message: the updaters run on the accumulators as the handler
  left them.
\<close>

lemma transcription_onmessage:
  "transcription (fst (onmessage dec now m s)) =
     (let t1 = (if inputTranscription m \<noteq> None
                then amend_or_append user
                       (if turnComplete m then [] else currentInputTranscriptionRef s @ delta user m)
                       (transcription s)
                else transcription s);
          t2 = (if outputTranscription m \<noteq> None
                then amend_or_append bot
                       (if turnComplete m then [] else currentOutputTranscriptionRef s @ delta bot m)
                       t1
                else t1)
      in if turnComplete m then map (\<lambda>entry. entry\<lparr>isFinal := True\<rparr>) t2 else t2)"
proof -
  let ?s3 = "fst (transcriptUpdates m s)"
  let ?s4 = "let r = onAudio dec now m ?s3
             in if snd r = None \<and> interrupted m then onInterrupted (fst r) else fst r"
  have run: "runUpdater ?s4 = runUpdater ?s3"
    by (rule runUpdater_reads_accumulators) (simp_all add: Let_def)
  have t: "transcription ?s4 = transcription s"
    by (simp add: Let_def)
  have "transcription (fst (onmessage dec now m s)) =
          foldl (\<lambda>prev u. runUpdater ?s3 u prev) (transcription s) (snd (transcriptUpdates m s))"
    unfolding fst_onmessage transcription_render run t ..
  then show ?thesis
    by (simp add: transcriptUpdates_eq runUpdater_def Let_def)
qed

lemma onmessage_keeps_final_prefix:
  assumes "list_all isFinal fin" and "prefix fin (transcription s)"
  shows "prefix fin (transcription (fst (onmessage dec now m s)))"
  unfolding transcription_onmessage Let_def
  using assms
  by (auto intro!: finalize_keeps_final_prefix amend_or_append_keeps_final_prefix)

lemma run_messages_keeps_final_prefix:
  assumes "list_all isFinal fin" and "prefix fin (transcription s)"
  shows "prefix fin (transcription (run_messages dec ms s))"
  using assms
proof (induction ms arbitrary: s)
  case Nil
  then show ?case by simp
next
  case (Cons a ms)
  obtain now m where a: "a = (now, m)" by (cases a)
  from Cons.prems have "prefix fin (transcription (fst (onmessage dec now m s)))"
    by (rule onmessage_keeps_final_prefix)
  with Cons.IH Cons.prems(1) show ?case
    by (simp add: a)
qed

text \<open>
  C4. Handling a message that signals turn completion leaves every transcript entry
  final and both accumulators empty, and whatever messages are handled afterwards, the
  entries committed here stay as they are at the front of the transcript.
\<close>

theorem turn_complete_commits:
  assumes "turnComplete m"
  shows "list_all isFinal (transcription (fst (onmessage dec now m s))) \<and>
         currentInputTranscriptionRef (fst (onmessage dec now m s)) = [] \<and>
         currentOutputTranscriptionRef (fst (onmessage dec now m s)) = [] \<and>
         prefix (transcription (fst (onmessage dec now m s)))
           (transcription (run_messages dec' ms (fst (onmessage dec now m s))))"
proof -
  let ?s' = "fst (onmessage dec now m s)"
  have fin: "list_all isFinal (transcription ?s')"
    using assms
    by (simp add: transcription_onmessage Let_def list_all_iff)
  have acc: "currentInputTranscriptionRef ?s' = [] \<and> currentOutputTranscriptionRef ?s' = []"
    using assms
    by (simp add: accumulators_onmessage)
  have "prefix (transcription ?s') (transcription (run_messages dec' ms ?s'))"
    using fin by (rule run_messages_keeps_final_prefix) simp
  with fin acc show ?thesis by simp
qed

theorem turn_complete_commits_witness:
  "turnComplete turnDone \<and>
   transcription (fst (onmessage quarterSeconds 0 turnDone
      (fst (onmessage quarterSeconds 0 (heard ''hello'') initialChatbot)))) =
     [\<lparr>speaker = user, etext = ''hello'', isFinal = True\<rparr>] \<and>
   prefix [\<lparr>speaker = user, etext = ''hello'', isFinal = True\<rparr>]
     (transcription (run_messages quarterSeconds [(1, heard ''again''), (2, said ''ok'')]
        (fst (onmessage quarterSeconds 0 turnDone
          (fst (onmessage quarterSeconds 0 (heard ''hello'') initialChatbot))))))"
proof -
  let ?s = "fst (onmessage quarterSeconds 0 (heard ''hello'') initialChatbot)"
  have t: "transcription (fst (onmessage quarterSeconds 0 turnDone ?s)) =
     [\<lparr>speaker = user, etext = ''hello'', isFinal = True\<rparr>]"
    by (simp add: onmessage_def transcriptUpdates_def onInputTranscription_def
        onOutputTranscription_def onTurnComplete_def render_def runUpdater_def onAudio_def
        onInterrupted_def scheduleAudio_def base64Audio_def truthy_def amend_or_append_def
        js_string_def set_add_def Let_def initialChatbot_def emptyMessage_def heard_def turnDone_def)
  have h: "turnComplete turnDone"
    by (simp add: turnDone_def emptyMessage_def)
  from turn_complete_commits [OF h, of quarterSeconds 0 ?s quarterSeconds
      "[(1, heard ''again''), (2, said ''ok'')]"] t h
  show ?thesis by simp
qed

lemma lastEntryOf_append_own [simp]:
  "speaker e = sp \<Longrightarrow> lastEntryOf sp (es @ [e]) = Some e"
  by (simp add: lastEntryOf_def)
















text \<open>
  A completing message that itself carries a transcription for a speaker commits the
  empty string for that speaker: its updater runs when lines 271-272 have already
  emptied the accumulator. The text heard before is lost from the transcript.
\<close>

lemma commit_with_delta_commits_empty:
  "transcription (run_messages quarterSeconds
      [(0, heard ''hel''), (1, (heard ''lo'')\<lparr>turnComplete := True\<rparr>)] initialChatbot) =
     [\<lparr>speaker = user, etext = [], isFinal = True\<rparr>]"
  by (simp add: onmessage_def transcriptUpdates_def onInputTranscription_def
        onOutputTranscription_def onTurnComplete_def render_def runUpdater_def onAudio_def
        onInterrupted_def scheduleAudio_def base64Audio_def truthy_def amend_or_append_def
        js_string_def set_add_def Let_def initialChatbot_def emptyMessage_def heard_def)
section \<open>Properties of the rounded sum\<close>

















lemma double_add_examples:
  "double_add 0 1 = 1" "double_add 1 2 = 3" "double_add 5 (1 / 2) = 11 / 2"
  "representable 0" "representable (1 / 2)" "representable 5"
  by code_simp+
section \<open>Properties of the playback scheduler\<close>

lemma onAudio_fragment:
  assumes "fragment dec m = Some d" and "outputAudioContextRef s \<noteq> None"
  shows "onAudio dec now m s = (scheduleAudio now d (s\<lparr>status := SPEAKING\<rparr>), None)"
  using assms
  by (auto simp: fragment_def onAudio_def split: sum.splits if_splits)







lemma onAudio_grows:
  "\<exists>extra. effects (fst (onAudio dec now m s)) = effects s @ extra"
  "set (audioSourcesRef s) \<subseteq> set (audioSourcesRef (fst (onAudio dec now m s)))"
  "outputAudioContextRef (fst (onAudio dec now m s)) = outputAudioContextRef s"
  by (auto simp: onAudio_def scheduleAudio_def set_add_def Let_def split: sum.splits)

lemma onAudio_quiet:
  "carriesNoAudio m \<Longrightarrow> onAudio dec now m s = (s, None)"
  by (auto simp: carriesNoAudio_def onAudio_def split: sum.splits)

lemma onmessage_quiet:
  assumes "carriesNoAudio m"
  shows "nextAudioStartTimeRef (fst (onmessage dec now m s)) =
           (if interrupted m then 0 else nextAudioStartTimeRef s)"
    and "outputAudioContextRef (fst (onmessage dec now m s)) = outputAudioContextRef s"
  using assms by (simp_all add: fst_onmessage onAudio_quiet onInterrupted_def Let_def)

lemma run_messages_quiet:
  assumes "\<forall>x\<in>set ms. carriesNoAudio (snd x)" and "nextAudioStartTimeRef s = 0"
  shows "nextAudioStartTimeRef (run_messages dec ms s) = 0 \<and>
         outputAudioContextRef (run_messages dec ms s) = outputAudioContextRef s"
  using assms
proof (induction ms arbitrary: s)
  case Nil
  then show ?case by simp
next
  case (Cons a ms)
  obtain now m where a: "a = (now, m)" by (cases a)
  from Cons.prems have q: "carriesNoAudio m" by (simp add: a)
  have "nextAudioStartTimeRef (fst (onmessage dec now m s)) = 0"
    using Cons.prems(2) by (simp add: onmessage_quiet(1) [OF q])
  with Cons.IH [of "fst (onmessage dec now m s)"] Cons.prems(1) show ?case
    by (simp add: a onmessage_quiet(2) [OF q])
qed

lemma scheduled_onmessage_fragment:
  assumes "fragment dec m = Some d" and "outputAudioContextRef s \<noteq> None"
  shows "scheduled (fst (onmessage dec now m s)) =
           scheduled s @ [\<lparr>source = created s, startTime = max now (nextAudioStartTimeRef s), duration = d\<rparr>]"
  using assms
  by (simp add: fst_onmessage onAudio_fragment scheduleAudio_def onInterrupted_def Let_def)

text \<open>
  C2. From any state, a message that signals an interruption and whose handler runs to
  its end leaves the set of active sources empty and the playback clock at zero, and
  \<open>stop\<close> has been called on every source that was active. After it, and after
  any further messages without audio, the next fragment is scheduled to start at the
  playback time read while it is handled, whatever the clock was before the
  interruption.
\<close>

theorem interruption_resets_playback:
  assumes "interrupted m" and "snd (onmessage dec now m s) = None"
  shows "audioSourcesRef (fst (onmessage dec now m s)) = [] \<and>
         nextAudioStartTimeRef (fst (onmessage dec now m s)) = 0 \<and>
         (\<forall>src\<in>set (audioSourcesRef s).
            SourceStop src \<in> set (drop (length (effects s)) (effects (fst (onmessage dec now m s))))) \<and>
         (\<forall>ms now' m' d.
            (\<forall>x\<in>set ms. carriesNoAudio (snd x)) \<and> outputAudioContextRef s \<noteq> None \<and>
            fragment dec m' = Some d \<and> 0 \<le> now' \<longrightarrow>
            newlyScheduled (run_messages dec ms (fst (onmessage dec now m s)))
              (fst (onmessage dec now' m' (run_messages dec ms (fst (onmessage dec now m s))))) =
              [\<lparr>source = created (run_messages dec ms (fst (onmessage dec now m s))),
                startTime = now', duration = d\<rparr>])"
proof -
  let ?s4 = "fst (onAudio dec now m (fst (transcriptUpdates m s)))"
  let ?s' = "fst (onmessage dec now m s)"
  have s': "?s' = render (onInterrupted ?s4) (snd (transcriptUpdates m s))"
    using assms by (simp add: fst_onmessage Let_def)
  have a: "audioSourcesRef ?s' = []" and b: "nextAudioStartTimeRef ?s' = 0"
    by (simp_all add: s' onInterrupted_def)
  from onAudio_grows(1) [of dec now m "fst (transcriptUpdates m s)"]
  obtain extra where extra: "effects ?s4 = effects s @ extra"
    by auto
  have "drop (length (effects s)) (effects ?s') = extra @ map SourceStop (audioSourcesRef ?s4)"
    by (simp add: s' onInterrupted_def extra)
  moreover have "set (audioSourcesRef s) \<subseteq> set (audioSourcesRef ?s4)"
    using onAudio_grows(2) [of "fst (transcriptUpdates m s)" dec now m] by simp
  ultimately have c: "\<forall>src\<in>set (audioSourcesRef s).
      SourceStop src \<in> set (drop (length (effects s)) (effects ?s'))"
    by auto
  have ctx: "outputAudioContextRef ?s' = outputAudioContextRef s"
    using onAudio_grows(3) [of dec now m "fst (transcriptUpdates m s)"]
    by (simp add: s' onInterrupted_def)
  have d: "newlyScheduled (run_messages dec ms ?s')
              (fst (onmessage dec now' m' (run_messages dec ms ?s'))) =
              [\<lparr>source = created (run_messages dec ms ?s'), startTime = now', duration = d\<rparr>]"
    if "\<forall>x\<in>set ms. carriesNoAudio (snd x)" and "outputAudioContextRef s \<noteq> None"
      and "fragment dec m' = Some d" and "0 \<le> now'" for ms now' m' d
  proof -
    from run_messages_quiet [OF that(1) b, of dec]
    have q: "nextAudioStartTimeRef (run_messages dec ms ?s') = 0"
      "outputAudioContextRef (run_messages dec ms ?s') \<noteq> None"
      using that(2) ctx by simp_all
    from scheduled_onmessage_fragment [OF that(3) q(2), of now'] q(1) that(4)
    show ?thesis
      by (simp add: newlyScheduled_def)
  qed
  from a b c d show ?thesis by blast
qed


lemma playing_eq:
  "playing = listening\<lparr>status := SPEAKING, created := 2,
      effects := [SourceStart 0 0, SourceStart 1 1],
      scheduled := [\<lparr>source = 0, startTime = 0, duration = 1\<rparr>,
                    \<lparr>source = 1, startTime = 1, duration = 2\<rparr>],
      nextAudioStartTimeRef := 3, audioSourcesRef := [0, 1]\<rparr>"
  by (simp add: playing_def listening_def onmessage_def transcriptUpdates_def onInputTranscription_def
        onOutputTranscription_def onTurnComplete_def render_def runUpdater_def onAudio_def
        onInterrupted_def scheduleAudio_def base64Audio_def truthy_def amend_or_append_def
        js_string_def set_add_def Let_def double_add_examples initialChatbot_def emptyMessage_def audio_def quarterSeconds_def)

theorem interruption_resets_playback_witness:
  "nextAudioStartTimeRef playing = 3 \<and> audioSourcesRef playing = [0, 1] \<and>
   audioSourcesRef (fst (onmessage quarterSeconds 1 interruption playing)) = [] \<and>
   nextAudioStartTimeRef (fst (onmessage quarterSeconds 1 interruption playing)) = 0 \<and>
   drop (length (effects playing)) (effects (fst (onmessage quarterSeconds 1 interruption playing))) =
     [SourceStop 0, SourceStop 1] \<and>
   newlyScheduled (fst (onmessage quarterSeconds 1 interruption playing))
     (fst (onmessage quarterSeconds 2 (audio ''AAAA'')
        (fst (onmessage quarterSeconds 1 interruption playing)))) =
     [\<lparr>source = 2, startTime = 2, duration = 1\<rparr>]"
proof -
  let ?s' = "fst (onmessage quarterSeconds 1 interruption playing)"
  have 1: "interrupted interruption"
    by (simp add: interruption_def emptyMessage_def)
  have 2: "snd (onmessage quarterSeconds 1 interruption playing) = None"
    by (simp add: onmessage_def transcriptUpdates_def onInputTranscription_def
        onOutputTranscription_def onTurnComplete_def render_def runUpdater_def onAudio_def
        onInterrupted_def scheduleAudio_def base64Audio_def truthy_def amend_or_append_def
        js_string_def set_add_def Let_def double_add_examples interruption_def emptyMessage_def)
  have 3: "fragment quarterSeconds (audio ''AAAA'') = Some 1"
    by (simp add: fragment_def base64Audio_def truthy_def audio_def emptyMessage_def quarterSeconds_def)
  have 4: "outputAudioContextRef playing \<noteq> None"
    by (simp add: playing_eq listening_def)
  have 5: "created ?s' = 2"
    by (simp add: playing_eq listening_def onmessage_def transcriptUpdates_def onInputTranscription_def
        onOutputTranscription_def onTurnComplete_def render_def runUpdater_def onAudio_def
        onInterrupted_def scheduleAudio_def base64Audio_def truthy_def amend_or_append_def
        js_string_def set_add_def Let_def double_add_examples initialChatbot_def interruption_def emptyMessage_def)
  have 6: "drop (length (effects playing)) (effects ?s') = [SourceStop 0, SourceStop 1]"
    by (simp add: playing_eq listening_def onmessage_def transcriptUpdates_def onInputTranscription_def
        onOutputTranscription_def onTurnComplete_def render_def runUpdater_def onAudio_def
        onInterrupted_def scheduleAudio_def base64Audio_def truthy_def amend_or_append_def
        js_string_def set_add_def Let_def double_add_examples initialChatbot_def interruption_def emptyMessage_def)
  have 7: "nextAudioStartTimeRef playing = 3 \<and> audioSourcesRef playing = [0, 1]"
    by (simp add: playing_eq)
  from interruption_resets_playback [OF 1 2] have
    a: "audioSourcesRef ?s' = []" and b: "nextAudioStartTimeRef ?s' = 0" and
    c: "\<forall>ms now' m' d.
            (\<forall>x\<in>set ms. carriesNoAudio (snd x)) \<and> outputAudioContextRef playing \<noteq> None \<and>
            fragment quarterSeconds m' = Some d \<and> 0 \<le> now' \<longrightarrow>
            newlyScheduled (run_messages quarterSeconds ms ?s')
              (fst (onmessage quarterSeconds now' m' (run_messages quarterSeconds ms ?s'))) =
              [\<lparr>source = created (run_messages quarterSeconds ms ?s'),
                startTime = now', duration = d\<rparr>]"
    by blast+
  from c [rule_format, of "[]" "audio ''AAAA''" 1 2] 3 4 5 have
    "newlyScheduled ?s' (fst (onmessage quarterSeconds 2 (audio ''AAAA'') ?s')) =
       [\<lparr>source = 2, startTime = 2, duration = 1\<rparr>]"
    by simp
  with a b 6 7 show ?thesis by blast
qed

section \<open>Teardown on remote close\<close>

text \<open>
  \<open>stopAudioPlayback\<close> acts only while the output context ref is set. The widget
  as mounted has no active source, and a state that has its output context or no
  active source stays so under every message and every \<open>onended\<close> callback, and
  has no active source after \<open>cleanup\<close>.
\<close>

lemma sources_need_context_onmessage:
  assumes "outputAudioContextRef s \<noteq> None \<or> audioSourcesRef s = []"
  shows "outputAudioContextRef (fst (onmessage dec now m s)) \<noteq> None \<or>
         audioSourcesRef (fst (onmessage dec now m s)) = []"
proof -
  have ctx: "outputAudioContextRef (fst (onAudio dec now m (fst (transcriptUpdates m s)))) =
      outputAudioContextRef s"
    using onAudio_grows(3) [of dec now m "fst (transcriptUpdates m s)"] by simp
  have src: "audioSourcesRef (fst (onAudio dec now m (fst (transcriptUpdates m s)))) = []"
    if "outputAudioContextRef s = None"
    using that assms by (simp add: onAudio_def split: sum.splits)
  show ?thesis
    using ctx src by (auto simp: fst_onmessage Let_def onInterrupted_def)
qed

lemma sources_need_context_teardown:
  "audioSourcesRef initialChatbot = []"
  "outputAudioContextRef s \<noteq> None \<or> audioSourcesRef s = [] \<Longrightarrow> audioSourcesRef (cleanup s) = []"
  "outputAudioContextRef s \<noteq> None \<or> audioSourcesRef s = [] \<Longrightarrow>
     outputAudioContextRef (onended src s) \<noteq> None \<or> audioSourcesRef (onended src s) = []"
  by (auto simp: initialChatbot_def cleanup_def stopAudioPlayback_def do_effect_def onended_def
      set_delete_def Let_def)

text \<open>
  C8. When the remote session closes, \<open>onclose\<close> runs \<open>cleanup\<close>: the
  microphone tracks are stopped, the processing node is disconnected, both audio
  contexts are closed unless they already are, the session is asked to close, every
  ref to them is cleared and the active sources are stopped and dropped (for a state
  that still has its output context or has no active source). The status, the error
  message and the transcript are left as they were; a status of \<open>ERROR\<close> stays
  \<open>ERROR\<close>.
\<close>

theorem remote_close_keeps_status:
  "status (onclose s) = status s \<and> error (onclose s) = error s \<and>
   transcription (onclose s) = transcription s \<and>
   \<not> microphoneStreamRef (onclose s) \<and> \<not> scriptProcessorRef (onclose s) \<and>
   inputAudioContextRef (onclose s) = None \<and> outputAudioContextRef (onclose s) = None \<and>
   \<not> sessionPromiseRef (onclose s) \<and>
   (outputAudioContextRef s \<noteq> None \<or> audioSourcesRef s = [] \<longrightarrow>
      audioSourcesRef (onclose s) = []) \<and>
   effects (onclose s) = effects s @
     (if outputAudioContextRef s \<noteq> None then map SourceStop (audioSourcesRef s) else []) @
     (if microphoneStreamRef s then [TrackStop] else []) @
     (if scriptProcessorRef s then [ProcessorDisconnect] else []) @
     (if inputAudioContextRef s \<noteq> None \<and> inputAudioContextRef s \<noteq> Some closed
      then [InputContextClose] else []) @
     (if outputAudioContextRef s \<noteq> None \<and> outputAudioContextRef s \<noteq> Some closed
      then [OutputContextClose] else []) @
     (if sessionPromiseRef s then [SessionClose] else [])"
  by (auto simp: onclose_def cleanup_def stopAudioPlayback_def do_effect_def Let_def)

theorem remote_close_keeps_status_witness:
  "status (onclose (playing\<lparr>status := ERROR\<rparr>)) = ERROR \<and>
   audioSourcesRef (onclose (playing\<lparr>status := ERROR\<rparr>)) = [] \<and>
   effects (onclose (playing\<lparr>status := ERROR\<rparr>)) =
     [SourceStart 0 0, SourceStart 1 1, SourceStop 0, SourceStop 1, TrackStop,
      ProcessorDisconnect, InputContextClose, OutputContextClose, SessionClose]"
  using remote_close_keeps_status [of "playing\<lparr>status := ERROR\<rparr>"]
  by (simp add: playing_eq listening_def initialChatbot_def)

section \<open>Properties of the outbound conversion\<close>

lemma sint_ToInt16:
  "sint (ToInt16 (Finite r)) = (js_truncate r + 32768) mod 65536 - 32768"
  by (simp add: ToInt16_def int_word_sint)

lemma js_truncate_in_range:
  assumes "- 32768 \<le> r" and "r < 32768"
  shows "- 32768 \<le> js_truncate r \<and> js_truncate r < 32768"
proof (cases "r < 0")
  case True
  then have "\<lceil>r\<rceil> \<le> 0" by (simp add: ceiling_le_iff)
  moreover from assms(1) have "- 32768 \<le> \<lceil>r\<rceil>" by (simp add: le_ceiling_iff)
  ultimately show ?thesis using True by (simp add: js_truncate_def)
next
  case False
  then have "0 \<le> \<lfloor>r\<rfloor>" by simp
  moreover from assms(2) have "\<lfloor>r\<rfloor> < 32768" by (simp add: floor_less_iff)
  ultimately show ?thesis using False by (simp add: js_truncate_def)
qed

lemma js_truncate_above:
  assumes "32768 \<le> r" and "r < 65536"
  shows "32768 \<le> js_truncate r \<and> js_truncate r < 65536"
proof -
  from assms have "\<not> r < 0" by simp
  moreover from assms(1) have "32768 \<le> \<lfloor>r\<rfloor>" by (simp add: le_floor_iff)
  moreover from assms(2) have "\<lfloor>r\<rfloor> < 65536" by (simp add: floor_less_iff)
  ultimately show ?thesis by (simp add: js_truncate_def)
qed

text \<open>
  C7. The converted block has one 16-bit sample for each captured sample. A finite
  sample \<open>r\<close> becomes \<open>r * 32768\<close> truncated towards zero and wrapped into the
  signed 16-bit range: it is the truncated product itself for \<open>-1 \<le> r < 1\<close>, and
  nothing clips a sample outside that range, a sample in \<open>[1, 2)\<close> coming out
  65536 lower, hence negative. The result depends on the sample alone (no dither).
\<close>

theorem quantization_truncates_and_wraps:
  "length (onaudioprocess inputData) = length inputData \<and>
   (\<forall>i<length inputData. \<forall>r. inputData ! i = Finite r \<longrightarrow>
      sint (onaudioprocess inputData ! i) =
        (js_truncate (r * 32768) + 32768) mod 65536 - 32768 \<and>
      (- 1 \<le> r \<and> r < 1 \<longrightarrow>
         sint (onaudioprocess inputData ! i) = js_truncate (r * 32768)) \<and>
      (1 \<le> r \<and> r < 2 \<longrightarrow>
         sint (onaudioprocess inputData ! i) = js_truncate (r * 32768) - 65536))"
proof (intro conjI allI impI)
  show "length (onaudioprocess inputData) = length inputData"
    by (simp add: onaudioprocess_def)
next
  fix i r assume i: "i < length inputData" and x: "inputData ! i = Finite r"
  then have q: "onaudioprocess inputData ! i = ToInt16 (Finite (r * 32768))"
    by (simp add: onaudioprocess_def js_times_def)
  show w: "sint (onaudioprocess inputData ! i) =
        (js_truncate (r * 32768) + 32768) mod 65536 - 32768"
    by (simp add: q sint_ToInt16)
  {
    assume "- 1 \<le> r \<and> r < 1"
    then have "- 32768 \<le> r * 32768" and "r * 32768 < 32768" by simp_all
    from js_truncate_in_range [OF this] show
      "sint (onaudioprocess inputData ! i) = js_truncate (r * 32768)"
      unfolding w by simp
  }
  {
    assume "1 \<le> r \<and> r < 2"
    then have "32768 \<le> r * 32768" and "r * 32768 < 65536" by simp_all
    from js_truncate_above [OF this] have
      b: "0 \<le> js_truncate (r * 32768) - 32768" "js_truncate (r * 32768) - 32768 < 65536"
      by simp_all
    have "(js_truncate (r * 32768) + 32768) mod 65536 =
          (js_truncate (r * 32768) - 32768 + 65536) mod 65536"
      by (simp add: add.commute)
    also have "\<dots> = (js_truncate (r * 32768) - 32768) mod 65536"
      by (simp only: mod_add_self2)
    also have "\<dots> = js_truncate (r * 32768) - 32768"
      using b by (simp only: mod_pos_pos_trivial)
    finally show "sint (onaudioprocess inputData ! i) = js_truncate (r * 32768) - 65536"
      unfolding w by simp
  }
qed

theorem quantization_truncates_and_wraps_witness:
  "map sint (onaudioprocess [Finite (1 / 2), Finite (- 1), Finite 1, Finite (3 / 2),
      Finite (- (3 / 131072)), NaN]) = [16384, - 32768, - 32768, - 16384, 0, 0]"
proof -
  let ?xs = "[Finite (1 / 2), Finite (- 1), Finite 1, Finite (3 / 2), Finite (- (3 / 131072)), NaN]"
  from quantization_truncates_and_wraps [of ?xs] have
    "\<forall>i<length ?xs. \<forall>r. ?xs ! i = Finite r \<longrightarrow>
      sint (onaudioprocess ?xs ! i) = (js_truncate (r * 32768) + 32768) mod 65536 - 32768"
    by blast
  from this [rule_format, of 2 1] have "sint (onaudioprocess ?xs ! 2) = - 32768"
    by (simp add: js_truncate_def)
  moreover have "map sint (onaudioprocess ?xs) =
      [16384, sint (onaudioprocess ?xs ! 1), sint (onaudioprocess ?xs ! 2), - 16384, 0, 0]"
    by (simp add: onaudioprocess_def js_times_def ToInt16_def js_truncate_def)
  moreover have "sint (onaudioprocess ?xs ! 1) = - 32768"
    by (simp add: onaudioprocess_def js_times_def ToInt16_def js_truncate_def)
  ultimately show ?thesis by simp
qed

section \<open>Properties of the text chat\<close>

lemma dropWhile_all: "\<forall>c\<in>set t. P c \<Longrightarrow> dropWhile P t = []"
  by (induction t) auto

lemma js_trim_blank:
  assumes "\<forall>c\<in>set t. isWhiteSpace c"
  shows "js_trim t = []"
  using assms by (simp add: js_trim_def dropWhile_all)

text \<open>
  C10. When the input is empty or consists of white space only, or while a model
  request is in flight (\<open>isLoading\<close>), \<open>sendMessage\<close> returns the state it was
  given: no transcript entry, no change of the chat history, no request.
\<close>

theorem sendMessage_blank_or_loading_is_noop:
  assumes "(\<forall>c\<in>set (inputValue s). isWhiteSpace c) \<or> isLoading s"
  shows "sendMessage apiKey s = s"
  using assms by (auto simp: sendMessage_def js_trim_blank Let_def)

theorem sendMessage_blank_or_loading_is_noop_witness:
  "sendMessage ''key'' (awaitingConfirmation\<lparr>inputValue := [CHR '' '', CHR 0x09, CHR '' '']\<rparr>) =
     awaitingConfirmation\<lparr>inputValue := [CHR '' '', CHR 0x09, CHR '' '']\<rparr> \<and>
   sendMessage ''key'' (awaitingConfirmation\<lparr>inputValue := ''yes'', isLoading := True\<rparr>) =
     awaitingConfirmation\<lparr>inputValue := ''yes'', isLoading := True\<rparr>"
proof -
  have 1: "(\<forall>c\<in>set (inputValue (awaitingConfirmation\<lparr>inputValue := [CHR '' '', CHR 0x09, CHR '' '']\<rparr>)).
              isWhiteSpace c) \<or>
           isLoading (awaitingConfirmation\<lparr>inputValue := [CHR '' '', CHR 0x09, CHR '' '']\<rparr>)"
    by (simp add: isWhiteSpace_def)
  have 2: "(\<forall>c\<in>set (inputValue (awaitingConfirmation\<lparr>inputValue := ''yes'', isLoading := True\<rparr>)).
              isWhiteSpace c) \<or>
           isLoading (awaitingConfirmation\<lparr>inputValue := ''yes'', isLoading := True\<rparr>)"
    by simp
  from sendMessage_blank_or_loading_is_noop [OF 1] sendMessage_blank_or_loading_is_noop [OF 2]
  show ?thesis by simp
qed

lemma thanks_in_closingMessage:
  "js_includes closingMessage ''Thank you for using the JHN Finance AI Agent!''"
  by code_simp

lemma isConfirmationAnswer_not_empty: "\<not> isConfirmationAnswer []"
  by (simp add: isConfirmationAnswer_def testAlternatives_def js_toLowerCase_def js_trim_def)

text \<open>
  C9. When the last bot message contains \<open>Is that correct?\<close>, the trimmed input is
  a confirming answer and no request is in flight, \<open>sendMessage\<close> appends the
  user's entry and the fixed closing line as a bot entry, to the transcript and to the
  chat history, and issues no request. The closing line contains
  \<open>Thank you for using the JHN Finance AI Agent!\<close>, so the transcript then has at
  least two entries and a bot entry with that text, and the submit button is shown
  unless feedback is showing or a submission is under way.
\<close>

theorem confirmation_closes_without_request:
  assumes "js_includes (lastBotMessage (transcription s)) ''Is that correct?''"
    and "isConfirmationAnswer (js_trim (inputValue s))"
    and "\<not> isLoading s"
  shows "transcription (sendMessage apiKey s) =
           transcription s @ [\<lparr>speaker = user, etext = js_trim (inputValue s), isFinal = True\<rparr>,
                              \<lparr>speaker = bot, etext = closingMessage, isFinal = True\<rparr>] \<and>
         js_includes closingMessage ''Thank you for using the JHN Finance AI Agent!'' \<and>
         chatHistoryRef (sendMessage apiKey s) =
           chatHistoryRef s @ [\<lparr>role = role_user, parts = [js_trim (inputValue s)]\<rparr>,
                               \<lparr>role = role_model, parts = [closingMessage]\<rparr>] \<and>
         effects (sendMessage apiKey s) = effects s \<and>
         \<not> isLoading (sendMessage apiKey s) \<and>
         2 \<le> length (transcription (sendMessage apiKey s)) \<and>
         botSaidThankYou (transcription (sendMessage apiKey s)) \<and>
         showSubmitButton (sendMessage apiKey s) = (\<not> showFeedback s \<and> \<not> isSubmitting s)"
proof -
  from assms(2) have ne: "js_trim (inputValue s) \<noteq> []"
    using isConfirmationAnswer_not_empty by auto
  have eq: "sendMessage apiKey s =
      s\<lparr>inputValue := [], error := None,
        transcription := transcription s @
          [\<lparr>speaker = user, etext = js_trim (inputValue s), isFinal = True\<rparr>,
           \<lparr>speaker = bot, etext = closingMessage, isFinal = True\<rparr>],
        chatHistoryRef := chatHistoryRef s @
          [\<lparr>role = role_user, parts = [js_trim (inputValue s)]\<rparr>,
           \<lparr>role = role_model, parts = [closingMessage]\<rparr>]\<rparr>"
    using assms ne by (simp add: sendMessage_def Let_def)
  have said: "botSaidThankYou (transcription (sendMessage apiKey s))"
    unfolding eq by (simp add: botSaidThankYou_def thanks_in_closingMessage)
  have len: "2 \<le> length (transcription (sendMessage apiKey s))"
    unfolding eq by simp
  have "showSubmitButton (sendMessage apiKey s) = (\<not> showFeedback s \<and> \<not> isSubmitting s)"
    unfolding showSubmitButton_def using said len by (simp add: eq)
  with said len thanks_in_closingMessage assms(3) show ?thesis
    by (simp add: eq)
qed

theorem confirmation_closes_without_request_witness:
  "transcription (sendMessage ''key'' (awaitingConfirmation\<lparr>inputValue := ''yes''\<rparr>)) =
     transcription awaitingConfirmation @
       [\<lparr>speaker = user, etext = ''yes'', isFinal = True\<rparr>,
        \<lparr>speaker = bot, etext = closingMessage, isFinal = True\<rparr>] \<and>
   effects (sendMessage ''key'' (awaitingConfirmation\<lparr>inputValue := ''yes''\<rparr>)) = [] \<and>
   showSubmitButton (sendMessage ''key'' (awaitingConfirmation\<lparr>inputValue := ''yes''\<rparr>))"
proof -
  let ?s = "awaitingConfirmation\<lparr>inputValue := ''yes''\<rparr>"
  have last: "lastBotMessage (transcription ?s) = confirmationLine"
    by (simp add: awaitingConfirmation_def initialChatbotText_def lastBotMessage_def)
  have 1: "js_includes (lastBotMessage (transcription ?s)) ''Is that correct?''"
    unfolding last by code_simp
  have trim: "js_trim (inputValue ?s) = ''yes''"
    by (simp add: js_trim_def isWhiteSpace_def)
  have 2: "isConfirmationAnswer (js_trim (inputValue ?s))"
    unfolding trim by code_simp
  have 3: "\<not> isLoading ?s"
    by (simp add: awaitingConfirmation_def initialChatbotText_def)
  from confirmation_closes_without_request [OF 1 2 3, of "''key''"] trim
  show ?thesis
    by (simp add: awaitingConfirmation_def initialChatbotText_def)
qed

section \<open>Properties of the quote submission\<close>

lemma requests_append [simp]: "requests (xs @ ys) = requests xs @ requests ys"
  by (simp add: requests_def)

lemma effects_cleanup:
  "requests (effects (cleanup s)) = requests (effects s)"
  by (simp add: cleanup_def stopAudioPlayback_def do_effect_def Let_def requests_def
      filter_map o_def)

lemma cleanup_frame [simp]:
  "isSubmitting (cleanup s) = isSubmitting s"
  "showFeedback (cleanup s) = showFeedback s"
  "error (cleanup s) = error s"
  "status (cleanup s) = status s"
  "transcription (cleanup s) = transcription s"
  by (simp_all add: cleanup_def stopAudioPlayback_def do_effect_def Let_def)


lemma requests_text_submissionSettled:
  "effects (text_submissionSettled thrown s) = effects s"
  by (simp add: text_submissionSettled_def Let_def split: option.splits)


lemma effects_text_relaySettled:
  "effects (text_relaySettled r s) = effects s"
  by (simp add: text_relaySettled_def requests_text_submissionSettled split: sum.splits)

lemma requests_sent [simp]:
  "requests [ExtractionRequest t] = [ExtractionRequest t]"
  "requests [RelayPost b] = [RelayPost b]"
  "requests [ExtractionRequest t, RelayPost b] = [ExtractionRequest t, RelayPost b]"
  by (simp_all add: requests_def)

lemma text_second_submit_is_noop:
  assumes "\<not> isSubmittingRef t"
  shows "text_handleDataSubmission c' (text_handleDataSubmission c t) =
           text_handleDataSubmission c t \<and>
         requests (effects (text_handleDataSubmission c' (text_handleDataSubmission c t))) =
           requests (effects t) @ [ExtractionRequest (transcriptText (transcription c))]"
  using assms by (simp add: text_handleDataSubmission_def do_effect_def)

lemma voice_submit_after_render_is_noop:
  assumes "isSubmitting c'"
  shows "handleDataSubmission c' s = s"
  using assms by (simp add: handleDataSubmission_def)

lemma voice_submit_sets_guard:
  assumes "\<not> isSubmitting c"
  shows "isSubmitting (handleDataSubmission c s)"
  using assms by (simp add: handleDataSubmission_def do_effect_def)



lemma relayFailure_not_ok:
  assumes "\<not> ok res \<or> (case result res of None \<Rightarrow> True | Some r \<Rightarrow> \<not> result_ok r)"
  shows "relayFailure res = Some (Exn (Some (relayMessage res)))"
  using assms
  by (auto simp: relayFailure_def relayMessage_def Let_def split: option.splits)

lemma relayMessage_not_empty: "relayMessage res \<noteq> []"
  by (simp add: relayMessage_def orElse_def split: option.splits)

text \<open>
  C6. In the voice widget a relay response that is not ok (\<open>webhookRes.ok\<close> false, or
  a body without a true \<open>ok\<close>) stores the error message, leaves the feedback prompt
  as it was and clears \<open>isSubmitting\<close>; but \<open>finally\<close> calls \<open>stopSession\<close>,
  which sets the status to \<open>IDLE\<close> after \<open>catch\<close> had set it to \<open>ERROR\<close>, so
  the panel that renders the message is not shown. The text widget, whose panel
  depends on \<open>error\<close> alone, shows it (\<open>text_failed_relay_shows_error\<close>).
\<close>

theorem voice_failed_relay_ends_idle:
  assumes "\<not> ok res \<or> (case result res of None \<Rightarrow> True | Some r \<Rightarrow> \<not> result_ok r)"
  shows "error (relaySettled (Inr res) s) = Some (relayMessage res) \<and>
         status (relaySettled (Inr res) s) = IDLE \<and>
         shownError (relaySettled (Inr res) s) = None \<and>
         showFeedback (relaySettled (Inr res) s) = showFeedback s \<and>
         \<not> isSubmitting (relaySettled (Inr res) s)"
  using relayMessage_not_empty [of res]
  by (simp add: relaySettled_def relayFailure_not_ok [OF assms] submissionSettled_def
      stopSession_def shownError_def orElse_def Let_def)

theorem voice_failed_relay_ends_idle_witness:
  "error (relaySettled (Inr relayBadGateway)
      (extractionSettled parsesAll (Inr (Some ''{}'')) (handleDataSubmission voiceReadyToSubmit voiceReadyToSubmit))) =
     Some ''Webhook failed (502).'' \<and>
   status (relaySettled (Inr relayBadGateway)
      (extractionSettled parsesAll (Inr (Some ''{}'')) (handleDataSubmission voiceReadyToSubmit voiceReadyToSubmit))) = IDLE \<and>
   shownError (relaySettled (Inr relayBadGateway)
      (extractionSettled parsesAll (Inr (Some ''{}'')) (handleDataSubmission voiceReadyToSubmit voiceReadyToSubmit))) = None"
proof -
  have 1: "\<not> ok relayBadGateway \<or>
      (case result relayBadGateway of None \<Rightarrow> True | Some r \<Rightarrow> \<not> result_ok r)"
    by (simp add: relayBadGateway_def)
  have d: "decimal 502 = ''502''"
    by code_simp
  have 2: "relayMessage relayBadGateway = ''Webhook failed (502).''"
    by (simp add: relayMessage_def relayBadGateway_def orElse_def d)
  from voice_failed_relay_ends_idle [OF 1] 2 show ?thesis
    by simp
qed

lemma text_failed_relay_shows_error:
  assumes "\<not> ok res \<or> (case result res of None \<Rightarrow> True | Some r \<Rightarrow> \<not> result_ok r)"
  shows "text_shownError (text_relaySettled (Inr res) s) = Some (relayMessage res) \<and>
         showFeedback (text_relaySettled (Inr res) s) = showFeedback s \<and>
         \<not> isSubmitting (text_relaySettled (Inr res) s) \<and>
         \<not> isSubmittingRef (text_relaySettled (Inr res) s) \<and>
         transcription (text_relaySettled (Inr res) s) = transcription s \<and>
         effects (text_handleDataSubmission (text_relaySettled (Inr res) s)
                    (text_relaySettled (Inr res) s)) =
           effects s @ [ExtractionRequest (transcriptText (transcription s))]"
  using relayMessage_not_empty [of res]
  by (simp add: text_relaySettled_def relayFailure_not_ok [OF assms] text_submissionSettled_def
      text_shownError_def text_handleDataSubmission_def do_effect_def orElse_def Let_def)

lemma voice_failed_relay_allows_retry:
  assumes "\<not> ok res \<or> (case result res of None \<Rightarrow> True | Some r \<Rightarrow> \<not> result_ok r)"
  shows "transcription (relaySettled (Inr res) s) = transcription s \<and>
         requests (effects (handleDataSubmission (relaySettled (Inr res) s)
                              (relaySettled (Inr res) s))) =
           requests (effects s) @ [ExtractionRequest (transcriptText (transcription s))]"
  by (simp add: relaySettled_def relayFailure_not_ok [OF assms] submissionSettled_def
      stopSession_def handleDataSubmission_def do_effect_def effects_cleanup Let_def)

end
